theory Spec2Isabelle
  imports Complex_Main
begin

section \<open>Numbers\<close>

text \<open>
  The simulator computes with JavaScript numbers. They are modelled as exact rationals,
  extended by the three non-finite values that a division by zero produces and that the
  later arithmetic propagates: rounding of IEEE doubles, overflow and the sign of zero
  are left out. Profile constants, the elapsed time and every quantity computed from
  them without a division are finite and have type \<open>rat\<close>; a quantity downstream of a
  division has type \<open>jsnum\<close>.
\<close>

datatype jsnum = Fin rat | PInf | NInf | NaN

definition inf_of :: "bool \<Rightarrow> jsnum" where
  "inf_of positive = (if positive then PInf else NInf)"

fun jneg :: "jsnum \<Rightarrow> jsnum" where
  "jneg (Fin a) = Fin (- a)"
| "jneg PInf = NInf"
| "jneg NInf = PInf"
| "jneg NaN = NaN"

fun jadd :: "jsnum \<Rightarrow> jsnum \<Rightarrow> jsnum" where
  "jadd (Fin a) (Fin b) = Fin (a + b)"
| "jadd NaN y = NaN"
| "jadd x NaN = NaN"
| "jadd PInf NInf = NaN"
| "jadd NInf PInf = NaN"
| "jadd PInf y = PInf"
| "jadd x PInf = PInf"
| "jadd NInf y = NInf"
| "jadd x NInf = NInf"

definition jsub :: "jsnum \<Rightarrow> jsnum \<Rightarrow> jsnum" where
  "jsub x y = jadd x (jneg y)"

fun jmul :: "jsnum \<Rightarrow> jsnum \<Rightarrow> jsnum" where
  "jmul (Fin a) (Fin b) = Fin (a * b)"
| "jmul NaN y = NaN"
| "jmul x NaN = NaN"
| "jmul PInf (Fin b) = (if b = 0 then NaN else inf_of (0 < b))"
| "jmul NInf (Fin b) = (if b = 0 then NaN else inf_of (b < 0))"
| "jmul (Fin a) PInf = (if a = 0 then NaN else inf_of (0 < a))"
| "jmul (Fin a) NInf = (if a = 0 then NaN else inf_of (a < 0))"
| "jmul PInf PInf = PInf"
| "jmul PInf NInf = NInf"
| "jmul NInf PInf = NInf"
| "jmul NInf NInf = PInf"

fun jdiv :: "jsnum \<Rightarrow> jsnum \<Rightarrow> jsnum" where
  "jdiv (Fin a) (Fin b) =
     (if b = 0 then (if a = 0 then NaN else inf_of (0 < a)) else Fin (a / b))"
| "jdiv NaN y = NaN"
| "jdiv x NaN = NaN"
| "jdiv (Fin a) PInf = Fin 0"
| "jdiv (Fin a) NInf = Fin 0"
| "jdiv PInf (Fin b) = inf_of (0 \<le> b)"
| "jdiv NInf (Fin b) = inf_of (b < 0)"
| "jdiv PInf PInf = NaN"
| "jdiv PInf NInf = NaN"
| "jdiv NInf PInf = NaN"
| "jdiv NInf NInf = NaN"

text \<open>The comparisons \<open><\<close> and \<open><=\<close>; both are false when an operand is NaN.\<close>

fun jlt :: "jsnum \<Rightarrow> jsnum \<Rightarrow> bool" where
  "jlt (Fin a) (Fin b) = (a < b)"
| "jlt NaN y = False"
| "jlt x NaN = False"
| "jlt PInf y = False"
| "jlt x NInf = False"
| "jlt NInf y = True"
| "jlt x PInf = True"

fun jle :: "jsnum \<Rightarrow> jsnum \<Rightarrow> bool" where
  "jle (Fin a) (Fin b) = (a \<le> b)"
| "jle NaN y = False"
| "jle x NaN = False"
| "jle NInf y = True"
| "jle x PInf = True"
| "jle PInf y = False"
| "jle x NInf = False"

definition jgt :: "jsnum \<Rightarrow> jsnum \<Rightarrow> bool" where
  "jgt x y = jlt y x"

definition jge :: "jsnum \<Rightarrow> jsnum \<Rightarrow> bool" where
  "jge x y = jle y x"

text \<open>Strict equality \<open>===\<close> on numbers: NaN is not equal to itself.\<close>

definition jeq :: "jsnum \<Rightarrow> jsnum \<Rightarrow> bool" where
  "jeq x y = (x \<noteq> NaN \<and> x = y)"

text \<open>\<open>Math.min\<close> and \<open>Math.max\<close> of two arguments: NaN when either argument is NaN.\<close>

definition jmin :: "jsnum \<Rightarrow> jsnum \<Rightarrow> jsnum" where
  "jmin x y = (if x = NaN \<or> y = NaN then NaN else if jle x y then x else y)"

definition jmax :: "jsnum \<Rightarrow> jsnum \<Rightarrow> jsnum" where
  "jmax x y = (if x = NaN \<or> y = NaN then NaN else if jle x y then y else x)"

text \<open>
  \<open>x.toFixed(d)\<close> of a finite \<open>x\<close> prints a sign, which is \<open>-\<close> exactly when \<open>x < 0\<close>,
  and the integer \<open>n\<close> for which \<open>n / 10^d\<close> is nearest to \<open>|x|\<close>, the larger one of two
  candidates. The string is represented by the pair of the sign and \<open>n\<close>, so that
  \<open>-0.0\<close> and \<open>0.0\<close> are different strings. (From \<open>10^21\<close> on, JavaScript prints
  the number in full instead; doubles of that size are integers.)
\<close>

definition toFixed :: "nat \<Rightarrow> rat \<Rightarrow> bool \<times> int" where
  "toFixed d x = (x < 0, \<lfloor>\<bar>x\<bar> * 10 ^ d + 1 / 2\<rfloor>)"

text \<open>\<open>parseFloat\<close> of a string printed by \<open>toFixed(d)\<close>.\<close>

definition parseFixed :: "nat \<Rightarrow> bool \<times> int \<Rightarrow> rat" where
  "parseFixed d s = (if fst s then - 1 else 1) * of_int (snd s) / 10 ^ d"

section \<open>Grain profiles\<close>

record profile =
  name :: string
  starch :: rat
  protein :: rat
  amylose :: rat
  amylopectin :: rat
  initial_moisture :: rat
  target_moisture :: rat
  gelatinization_onset :: rat
  gelatinization_temp :: rat
  optimal_cook_time :: rat
  weight :: rat
  nir_970 :: rat
  nir_1450 :: rat
  nir_1680 :: rat
  nir_1200 :: rat
  nir_2100 :: rat

definition basmati_rice :: profile where
  "basmati_rice = \<lparr> name = ''Basmati Rice'', starch = 78, protein = 7, amylose = 22,
     amylopectin = 78, initial_moisture = 12, target_moisture = 65,
     gelatinization_onset = 65.9, gelatinization_temp = 68, optimal_cook_time = 10,
     weight = 100, nir_970 = 0.18, nir_1450 = 0.22, nir_1680 = 0.15, nir_1200 = 0.65,
     nir_2100 = 0.72 \<rparr>"

definition chickpeas :: profile where
  "chickpeas = \<lparr> name = ''Chickpeas'', starch = 45, protein = 20, amylose = 30,
     amylopectin = 70, initial_moisture = 10, target_moisture = 70,
     gelatinization_onset = 72, gelatinization_temp = 75, optimal_cook_time = 20,
     weight = 100, nir_970 = 0.15, nir_1450 = 0.19, nir_1680 = 0.38, nir_1200 = 0.52,
     nir_2100 = 0.68 \<rparr>"

definition lentils :: profile where
  "lentils = \<lparr> name = ''Red Lentils'', starch = 50, protein = 25, amylose = 25,
     amylopectin = 75, initial_moisture = 11, target_moisture = 68,
     gelatinization_onset = 65, gelatinization_temp = 70, optimal_cook_time = 14,
     weight = 100, nir_970 = 0.16, nir_1450 = 0.2, nir_1680 = 0.42, nir_1200 = 0.58,
     nir_2100 = 0.7 \<rparr>"

definition quinoa :: profile where
  "quinoa = \<lparr> name = ''Quinoa'', starch = 64, protein = 14, amylose = 15,
     amylopectin = 85, initial_moisture = 10, target_moisture = 62,
     gelatinization_onset = 61, gelatinization_temp = 65, optimal_cook_time = 12,
     weight = 100, nir_970 = 0.14, nir_1450 = 0.18, nir_1680 = 0.28, nir_1200 = 0.6,
     nir_2100 = 0.78 \<rparr>"

text \<open>
  The object literal \<open>GRAIN_PROFILES\<close> as a finite map from its own keys; a key that is
  absent yields \<open>undefined\<close>, here \<open>None\<close>. (Property names inherited from the object
  prototype are not modelled.)
\<close>

definition GRAIN_PROFILES :: "string \<rightharpoonup> profile" where
  "GRAIN_PROFILES = [''basmati_rice'' \<mapsto> basmati_rice, ''chickpeas'' \<mapsto> chickpeas,
     ''lentils'' \<mapsto> lentils, ''quinoa'' \<mapsto> quinoa]"

datatype phase = MICROWAVE | TRANSFER | PRESSURE | COOLING | DONE

text \<open>The display string of each phase, \<open>COOKING_PHASES\<close>.\<close>

fun COOKING_PHASES :: "phase \<Rightarrow> string" where
  "COOKING_PHASES MICROWAVE = ''Microwave Heating''"
| "COOKING_PHASES TRANSFER = ''Transfer to Pressure Cooker''"
| "COOKING_PHASES PRESSURE = ''Pressure Cooking''"
| "COOKING_PHASES COOLING = ''Cooling/Rest''"
| "COOKING_PHASES DONE = ''Done''"


section \<open>The decision log\<close>

text \<open>
  A log message is a template with numbers filled in. The model keeps the template and
  the numbers that fill it, before they are printed.
\<close>

datatype message =
    NirScanComplete rat rat rat rat rat
  | Composition rat rat rat rat rat
  | GelatinizationOnset rat jsnum
  | MicrowaveStatus jsnum jsnum jsnum
  | Transferring
  | GelatinizationComplete jsnum
  | BuildingPressure jsnum jsnum
  | HoldingPressure jsnum jsnum
  | Depressurizing jsnum jsnum
  | CookingComplete jsnum jsnum

record decision =
  time :: rat
  message :: message

text \<open>
  \<open>addDecision(time, message)\<close>, the updater it passes to \<open>setDecisions\<close>: the entry is
  appended unless an entry of the log prints, with one decimal, as the new time in
  minutes does.
\<close>

definition addDecision :: "rat \<Rightarrow> message \<Rightarrow> decision list \<Rightarrow> decision list" where
  "addDecision t msg prev =
     (let timeKey = toFixed 1 (t / 60);
          exists = list_ex (\<lambda>d. toFixed 1 (decision.time d) = timeKey) prev
      in if \<not> exists then prev @ [\<lparr> time = t / 60, message = msg \<rparr>] else prev)"

text \<open>The calls of \<open>addDecision\<close> made by one invocation of the engine, applied in order.\<close>

definition addDecisions :: "(rat \<times> message) list \<Rightarrow> decision list \<Rightarrow> decision list" where
  "addDecisions calls prev = foldl (\<lambda>log (t, msg). addDecision t msg log) prev calls"

section \<open>The simulation engine\<close>

record sample =
  time :: rat
  moisture :: jsnum
  temperature :: jsnum
  pressure :: jsnum
  ultrasonicVelocity :: jsnum
  microwavePower :: jsnum
  gelatinizationProgress :: jsnum
  phase :: phase

text \<open>The four one-shot flags, \<open>nirScanLoggedRef\<close> to \<open>transferLoggedRef\<close>.\<close>

record latches =
  nirScanLogged :: bool
  gelOnsetLogged :: bool
  gelCompleteLogged :: bool
  transferLogged :: bool

text \<open>
  What one invocation of \<open>simulateCooking\<close> does: the sample it returns, its calls of
  \<open>addDecision\<close> in order, the flags as it leaves them, and the label it passes to
  \<open>setGrainTransformation\<close> (\<open>setCurrentPhase\<close> receives the phase of the sample).
\<close>

record outcome =
  sample :: sample
  calls :: "(rat \<times> message) list"
  flags :: latches
  transformation :: string

text \<open>The label derived from the gelatinization progress (source lines 314 to 323).\<close>

definition transformationOf :: "jsnum \<Rightarrow> string" where
  "transformationOf g =
     (if jeq g (Fin 0) then ''Hydration''
      else if jgt g (Fin 0) \<and> jlt g (Fin 60) then ''Gelatinization Onset''
      else if jge g (Fin 60) \<and> jlt g (Fin 100) then ''Complete Gelatinization''
      else if jeq g (Fin 100) then ''Fully Cooked''
      else ''Hydration'')"

text \<open>The value \<open>parseFloat((time / 60).toFixed(2))\<close> stored in a sample.\<close>

definition sampleTime :: "rat \<Rightarrow> rat" where
  "sampleTime t = parseFixed 2 (toFixed 2 (t / 60))"

text \<open>
  \<open>Math.floor(time) % k === 0\<close>: the remainder of JavaScript takes the sign of the
  dividend, and it is zero exactly when the remainder of HOL is.
\<close>

definition floorMod :: "rat \<Rightarrow> int \<Rightarrow> bool" where
  "floorMod t k = (\<lfloor>t\<rfloor> mod k = 0)"

text \<open>The branch \<open>time < cookTime * 0.45\<close> (source lines 173 to 222).\<close>

definition microwaveBranch :: "profile \<Rightarrow> rat \<Rightarrow> latches \<Rightarrow> rat \<Rightarrow> outcome" where
  "microwaveBranch grain cookTime l t =
     (let microwaveProgress = jdiv (Fin t) (Fin (cookTime * 0.45));
          moisture' = jadd (Fin (initial_moisture grain))
                        (jmul (Fin (45 - initial_moisture grain)) microwaveProgress);
          temperature' = jadd (Fin 25)
                        (jmul (Fin (gelatinization_temp grain + 15)) microwaveProgress);
          microwavePower' = jadd (Fin 40) (jmul (Fin 40) microwaveProgress);
          ultrasonicVelocity' = jadd (Fin 1500) (jmul (Fin 120) microwaveProgress);
          gelatinizationProgress' =
            (if jge temperature' (Fin (gelatinization_onset grain)) then
               (let onsetProgress = jdiv (Fin (gelatinization_onset grain - 25))
                                      (Fin (gelatinization_temp grain + 15 - 25));
                    progressSinceOnset = jdiv (jsub microwaveProgress onsetProgress)
                                           (jsub (Fin 1) onsetProgress)
                in jmax (Fin 0) (jmin (Fin 60) (jmul progressSinceOnset (Fin 60))))
             else Fin 0);
          onset = jge temperature' (Fin (gelatinization_onset grain)) \<and> \<not> gelOnsetLogged l;
          status = jgt microwaveProgress (Fin 0.2) \<and> floorMod t 60
      in \<lparr> sample = \<lparr> time = sampleTime t, moisture = moisture',
             temperature = temperature', pressure = Fin 1,
             ultrasonicVelocity = ultrasonicVelocity', microwavePower = microwavePower',
             gelatinizationProgress = gelatinizationProgress', phase = MICROWAVE \<rparr>,
           calls =
             (if onset
              then [(t, GelatinizationOnset (gelatinization_onset grain) ultrasonicVelocity')]
              else []) @
             (if status then [(t, MicrowaveStatus microwavePower' temperature' moisture')]
              else []),
           flags = (if onset then l\<lparr> gelOnsetLogged := True \<rparr> else l),
           transformation = transformationOf gelatinizationProgress' \<rparr>)"

text \<open>The branch \<open>time < cookTime * 0.48\<close> (source lines 223 to 238).\<close>

definition transferBranch :: "profile \<Rightarrow> rat \<Rightarrow> latches \<Rightarrow> rat \<Rightarrow> outcome" where
  "transferBranch grain cookTime l t =
     \<lparr> sample = \<lparr> time = sampleTime t, moisture = Fin 45,
         temperature = Fin (gelatinization_temp grain + 15), pressure = Fin 1,
         ultrasonicVelocity = Fin 1620, microwavePower = Fin 0,
         gelatinizationProgress = Fin 60, phase = TRANSFER \<rparr>,
       calls = (if \<not> transferLogged l then [(t, Transferring)] else []),
       flags = (if \<not> transferLogged l then l\<lparr> transferLogged := True \<rparr> else l),
       transformation = transformationOf (Fin 60) \<rparr>"

text \<open>The branch \<open>time < cookTime * 0.85\<close> (source lines 239 to 281).\<close>

definition pressureBranch :: "profile \<Rightarrow> rat \<Rightarrow> latches \<Rightarrow> rat \<Rightarrow> outcome" where
  "pressureBranch grain cookTime l t =
     (let pressureProgress = jdiv (Fin (t - cookTime * 0.48)) (Fin (cookTime * 0.37));
          moisture' = jadd (Fin 45) (jmul (Fin (target_moisture grain - 45)) pressureProgress);
          temperature' = jadd (Fin (gelatinization_temp grain + 15))
                           (jmul (Fin (100 - gelatinization_temp grain - 15)) pressureProgress);
          ultrasonicVelocity' = jadd (Fin 1620) (jmul (Fin 70) pressureProgress);
          gelatinizationProgress' = jadd (Fin 60) (jmul (Fin 40) pressureProgress);
          pressure' = (if jlt pressureProgress (Fin 0.15)
                       then jadd (Fin 1.0)
                              (jmul (Fin (2.2 - 1.0)) (jdiv pressureProgress (Fin 0.15)))
                       else Fin 2.2);
          complete = jgt pressureProgress (Fin 0.6) \<and> \<not> gelCompleteLogged l
      in \<lparr> sample = \<lparr> time = sampleTime t, moisture = moisture',
             temperature = temperature', pressure = pressure',
             ultrasonicVelocity = ultrasonicVelocity', microwavePower = Fin 0,
             gelatinizationProgress = gelatinizationProgress', phase = PRESSURE \<rparr>,
           calls =
             (if complete then [(t, GelatinizationComplete ultrasonicVelocity')] else []) @
             (if jlt pressureProgress (Fin 0.15) \<and> floorMod t 40
              then [(t, BuildingPressure pressure' ultrasonicVelocity')]
              else if jge pressureProgress (Fin 0.15) \<and> floorMod t 80
              then [(t, HoldingPressure pressure' ultrasonicVelocity')]
              else []),
           flags = (if complete then l\<lparr> gelCompleteLogged := True \<rparr> else l),
           transformation = transformationOf gelatinizationProgress' \<rparr>)"

text \<open>The last branch (source lines 282 to 310).\<close>

definition coolingBranch :: "profile \<Rightarrow> rat \<Rightarrow> latches \<Rightarrow> rat \<Rightarrow> outcome" where
  "coolingBranch grain cookTime l t =
     (let phase' = (if t < cookTime * 0.95 then COOLING else DONE);
          coolProgress = jdiv (Fin (t - cookTime * 0.85)) (Fin (cookTime * 0.15));
          moisture' = jsub (Fin (target_moisture grain)) (jmul (Fin 2) coolProgress);
          temperature' = jsub (Fin 100) (jmul (Fin 35) coolProgress);
          pressure' = jsub (Fin 2.2) (jmul (Fin 1.2) coolProgress);
          ultrasonicVelocity' = jsub (Fin 1690) (jmul (Fin 10) coolProgress)
      in \<lparr> sample = \<lparr> time = sampleTime t, moisture = moisture',
             temperature = temperature', pressure = pressure',
             ultrasonicVelocity = ultrasonicVelocity', microwavePower = Fin 0,
             gelatinizationProgress = Fin 100, phase = phase' \<rparr>,
           calls =
             (if jlt coolProgress (Fin 0.3) \<and> floorMod t 30
              then [(t, Depressurizing pressure' temperature')] else []) @
             (if phase' = DONE \<and> floorMod t 20
              then [(t, CookingComplete moisture' ultrasonicVelocity')] else []),
           flags = l,
           transformation = transformationOf (Fin 100) \<rparr>)"

text \<open>The chain of branches on the elapsed time (source lines 173 to 310).\<close>

definition branchAt :: "profile \<Rightarrow> latches \<Rightarrow> rat \<Rightarrow> outcome" where
  "branchAt grain l t =
     (let cookTime = optimal_cook_time grain * 60
      in if t < cookTime * 0.45 then microwaveBranch grain cookTime l t
         else if t < cookTime * 0.48 then transferBranch grain cookTime l t
         else if t < cookTime * 0.85 then pressureBranch grain cookTime l t
         else coolingBranch grain cookTime l t)"

text \<open>
  \<open>simulateCooking(time)\<close> for a defined \<open>grain\<close> and the flags \<open>l\<close>: the scan at time
  zero (source lines 161 to 171), then the branch of the elapsed time.
\<close>

definition simulateCooking :: "profile \<Rightarrow> latches \<Rightarrow> rat \<Rightarrow> outcome" where
  "simulateCooking grain l t =
     (let scan = (t = 0 \<and> \<not> nirScanLogged l);
          scanCalls =
            (if scan
             then [(0, NirScanComplete (nir_970 grain) (nir_1450 grain) (nir_1680 grain)
                         (nir_1200 grain) (nir_2100 grain)),
                   (0, Composition (initial_moisture grain) (starch grain) (protein grain)
                         (amylose grain) (amylopectin grain))]
             else []);
          l' = (if scan then l\<lparr> nirScanLogged := True \<rparr> else l);
          out = branchAt grain l' t
      in out\<lparr> calls := scanCalls @ calls out \<rparr>)"

section \<open>The component and its driver\<close>

record state =
  selectedGrain :: string
  grainWeight :: int
  speedMultiplier :: int
  isRunning :: bool
  simTime :: rat
  data :: "sample list"
  currentPhase :: phase
  grainTransformation :: string
  decisions :: "decision list"
  refs :: latches

definition noLatches :: latches where
  "noLatches = \<lparr> nirScanLogged = False, gelOnsetLogged = False,
     gelCompleteLogged = False, transferLogged = False \<rparr>"

text \<open>The state of the component when it is mounted.\<close>

definition initialState :: state where
  "initialState = \<lparr> selectedGrain = ''basmati_rice'', grainWeight = 100,
     speedMultiplier = 10, isRunning = False, simTime = 0, data = [],
     currentPhase = MICROWAVE, grainTransformation = ''Hydration'', decisions = [],
     refs = noLatches \<rparr>"

text \<open>Reading a property of \<open>grain\<close> when the selected id has no profile raises.\<close>

datatype error = TypeError

text \<open>
  The engine as the component invokes it: \<open>grain\<close> is \<open>GRAIN_PROFILES[selectedGrain]\<close>
  and the flags are those of the component.
\<close>

definition invoke :: "state \<Rightarrow> rat \<Rightarrow> error + outcome" where
  "invoke st t =
     (case GRAIN_PROFILES (selectedGrain st) of
        None \<Rightarrow> Inl TypeError
      | Some grain \<Rightarrow> Inr (simulateCooking grain (refs st) t))"

text \<open>The effects of an invocation on the component.\<close>

definition commit :: "outcome \<Rightarrow> state \<Rightarrow> state" where
  "commit out st =
     st\<lparr> refs := flags out,
         decisions := addDecisions (calls out) (decisions st),
         currentPhase := phase (sample out),
         grainTransformation := transformation out \<rparr>"

text \<open>\<open>simulateCooking(time)\<close> on the component: the sample returned and the state left.\<close>

definition simulateCookingAt :: "state \<Rightarrow> rat \<Rightarrow> error + sample \<times> state" where
  "simulateCookingAt st t =
     (case invoke st t of
        Inl e \<Rightarrow> Inl e
      | Inr out \<Rightarrow> Inr (sample out, commit out st))"




text \<open>
  One call of the interval's callback (source lines 361 to 374): the updater of
  \<open>setSimTime\<close> with the sample it appends.
\<close>

definition tick :: "state \<Rightarrow> error + state" where
  "tick st =
     (case GRAIN_PROFILES (selectedGrain st) of
        None \<Rightarrow> Inl TypeError
      | Some grain \<Rightarrow>
          (let TIME_INCREMENT = (100 / 1000) * of_int (speedMultiplier st);
               newTime = simTime st + TIME_INCREMENT;
               cookTime = optimal_cook_time grain * 60
           in if newTime \<ge> cookTime
              then Inr (st\<lparr> isRunning := False, simTime := cookTime \<rparr>)
              else (case simulateCookingAt st newTime of
                      Inl e \<Rightarrow> Inl e
                    | Inr (newDataPoint, st') \<Rightarrow>
                        Inr (st'\<lparr> data := data st' @ [newDataPoint],
                                  simTime := newTime \<rparr>))))"

text \<open>The interval fires \<open>n\<close> times; it is cleared once the component is not running.\<close>

fun run :: "nat \<Rightarrow> state \<Rightarrow> error + state" where
  "run 0 st = Inr st"
| "run (Suc n) st =
     (if isRunning st
      then (case tick st of Inl e \<Rightarrow> Inl e | Inr st' \<Rightarrow> run n st')
      else Inr st)"


text \<open>The engine invoked at each time of a list in turn, the flags carried along.\<close>

fun invocations :: "profile \<Rightarrow> latches \<Rightarrow> rat list \<Rightarrow> (rat \<times> message) list" where
  "invocations grain l [] = []"
| "invocations grain l (t # ts) =
     calls (simulateCooking grain l t) @
     invocations grain (flags (simulateCooking grain l t)) ts"

section \<open>Notions of the specification\<close>



text \<open>The five one-shot messages, and how often a list of calls carries one of a kind.\<close>

fun isNirScan :: "message \<Rightarrow> bool" where
  "isNirScan (NirScanComplete a b c d e) = True"
| "isNirScan m = False"

fun isComposition :: "message \<Rightarrow> bool" where
  "isComposition (Composition a b c d e) = True"
| "isComposition m = False"

fun isOnset :: "message \<Rightarrow> bool" where
  "isOnset (GelatinizationOnset a b) = True"
| "isOnset m = False"

fun isTransfer :: "message \<Rightarrow> bool" where
  "isTransfer Transferring = True"
| "isTransfer m = False"

fun isComplete :: "message \<Rightarrow> bool" where
  "isComplete (GelatinizationComplete a) = True"
| "isComplete m = False"

definition emitted :: "(message \<Rightarrow> bool) \<Rightarrow> (rat \<times> message) list \<Rightarrow> nat" where
  "emitted P cs = length (filter (\<lambda>c. P (snd c)) cs)"

text \<open>The sample of a profile at a time; the flags have no part in it.\<close>

definition sampleAt :: "profile \<Rightarrow> rat \<Rightarrow> sample" where
  "sampleAt grain t = sample (simulateCooking grain noLatches t)"

text \<open>
  The gelatinization progress of the specification over the rationals, where every
  division is exact. \<open>ramp\<close> is the MICROWAVE formula: the progress since the onset,
  times 60 and clamped to \<open>[0, 60]\<close>, once the temperature has reached the onset.
\<close>

definition ramp :: "rat \<Rightarrow> rat \<Rightarrow> rat \<Rightarrow> rat" where
  "ramp onset gt p =
     (if onset \<le> 25 + (gt + 15) * p
      then max 0 (min 60 ((p - (onset - 25) / (gt + 15 - 25))
                            / (1 - (onset - 25) / (gt + 15 - 25)) * 60))
      else 0)"

definition progressOf :: "profile \<Rightarrow> rat \<Rightarrow> rat" where
  "progressOf grain t =
     (let cookTime = optimal_cook_time grain * 60
      in if t < cookTime * 0.45
         then ramp (gelatinization_onset grain) (gelatinization_temp grain)
                (t / (cookTime * 0.45))
         else if t < cookTime * 0.48 then 60
         else if t < cookTime * 0.85 then 60 + 40 * ((t - cookTime * 0.48) / (cookTime * 0.37))
         else 100)"

section \<open>Properties\<close>

subsection \<open>The registered profiles\<close>

text \<open>
  Each of the four registered profiles has a positive cook time and satisfies the
  invariant of the specification, with a gelatinization temperature above 10.
\<close>

lemma registered_profiles_valid:
  assumes "GRAIN_PROFILES selected = Some grain"
  shows "0 < optimal_cook_time grain \<and> 0 < gelatinization_onset grain
       \<and> gelatinization_onset grain \<le> gelatinization_temp grain
       \<and> 10 < gelatinization_temp grain
       \<and> initial_moisture grain < target_moisture grain"
  using assms
  by (auto simp: GRAIN_PROFILES_def basmati_rice_def chickpeas_def lentils_def quinoa_def
      split: if_splits)

subsection \<open>Phases\<close>

lemmas branch_defs =
  branchAt_def microwaveBranch_def transferBranch_def pressureBranch_def coolingBranch_def

lemma phase_simulateCooking:
  "phase (sample (simulateCooking grain l t)) =
     (if t < optimal_cook_time grain * 60 * 0.45 then MICROWAVE
      else if t < optimal_cook_time grain * 60 * 0.48 then TRANSFER
      else if t < optimal_cook_time grain * 60 * 0.85 then PRESSURE
      else if t < optimal_cook_time grain * 60 * 0.95 then COOLING
      else DONE)"
  by (simp add: simulateCooking_def branch_defs Let_def)





subsection \<open>Gelatinization progress\<close>

lemma simulateCooking_sample:
  "sample (simulateCooking grain l t) =
     sample (branchAt grain
       (if t = 0 \<and> \<not> nirScanLogged l then l\<lparr> nirScanLogged := True \<rparr> else l) t)"
  by (simp add: simulateCooking_def Let_def)

lemma ramp_range: "0 \<le> ramp onset gt p \<and> ramp onset gt p \<le> 60"
  by (simp add: ramp_def)

lemma ramp_mono:
  assumes "0 < onset" "onset \<le> gt" "gt \<noteq> 10" "0 \<le> p" "p \<le> p'" "p' \<le> 1"
  shows "ramp onset gt p \<le> ramp onset gt p'"
proof -
  define e where "e = gt + 15 - 25"
  define op where "op = (onset - 25) / e"
  define q where "q = 1 - op"
  have lt: "onset - 25 < e" using assms(2) by (simp add: e_def)
  show ?thesis
  proof (cases "0 < e")
    case True
    then have "op < 1"
      using lt by (simp add: op_def)
    then have q: "0 < q" by (simp add: q_def)
    have "(p - op) / q \<le> (p' - op) / q"
      using assms(5) q by (simp add: divide_right_mono)
    then have h: "(p - op) / q * 60 \<le> (p' - op) / q * 60"
      by (rule mult_right_mono) simp
    have guard: "onset \<le> 25 + (gt + 15) * p'" if "onset \<le> 25 + (gt + 15) * p"
    proof -
      have "(gt + 15) * p \<le> (gt + 15) * p'"
        using assms(1,2,5) by (intro mult_left_mono) simp_all
      with that show ?thesis by simp
    qed
    show ?thesis
      using h guard
      unfolding ramp_def e_def [symmetric] op_def [symmetric] q_def [symmetric]
      by (auto simp: min_def max_def)
  next
    case False
    then have e: "e < 0" using assms(3) by (simp add: e_def)
    then have "1 < op"
      using lt by (simp add: op_def)
    then have q: "q < 0" by (simp add: q_def)
    have top: "60 \<le> (x - op) / q * 60" if "x \<le> 1" for x
    proof -
      have "x - op \<le> q" using that by (simp add: q_def)
      then have "1 \<le> (x - op) / q"
        using q by (simp add: le_divide_eq_1_neg)
      then have "1 * 60 \<le> (x - op) / q * 60"
        by (rule mult_right_mono) simp
      then show ?thesis by simp
    qed
    have guard: "onset \<le> 25 + (gt + 15) * x" if "0 \<le> x" for x
    proof -
      have "0 \<le> (gt + 15) * x"
        using assms(1,2) that by (intro mult_nonneg_nonneg) simp_all
      moreover have "onset \<le> 25" using assms(2) e by (simp add: e_def)
      ultimately show ?thesis by simp
    qed
    have "ramp onset gt x = 60" if "0 \<le> x" "x \<le> 1" for x
      using guard [OF that(1)] top [OF that(2)]
      unfolding ramp_def e_def [symmetric] op_def [symmetric] q_def [symmetric]
      by simp
    then show ?thesis
      using assms(4,5,6) by simp
  qed
qed

lemma jdiv_Fin: "b \<noteq> 0 \<Longrightarrow> jdiv (Fin a) (Fin b) = Fin (a / b)"
  by simp

lemma jsub_Fin: "jsub (Fin a) (Fin b) = Fin (a - b)"
  by (simp add: jsub_def)

lemma jge_Fin: "jge (Fin a) (Fin b) = (b \<le> a)"
  by (simp add: jge_def)

lemma jmin_Fin: "jmin (Fin a) (Fin b) = Fin (min a b)"
  by (simp add: jmin_def min_def)

lemma jmax_Fin: "jmax (Fin a) (Fin b) = Fin (max a b)"
  by (simp add: jmax_def max_def)

lemmas jsnum_Fin =
  simp_thms jdiv_Fin jsub_Fin jge_Fin jmin_Fin jmax_Fin jadd.simps(1) jmul.simps(1)

lemma microwave_progress:
  assumes "c * 0.45 \<noteq> 0" and "gelatinization_temp grain + 15 - 25 \<noteq> 0"
    and "1 - (gelatinization_onset grain - 25) / (gelatinization_temp grain + 15 - 25) \<noteq> 0"
  shows "gelatinizationProgress (sample (microwaveBranch grain c l t)) =
     Fin (ramp (gelatinization_onset grain) (gelatinization_temp grain) (t / (c * 0.45)))"
  using assms
  by (simp only: microwaveBranch_def ramp_def Let_def outcome.select_convs
      sample.select_convs jsnum_Fin if_distrib [of Fin] cong: if_cong)

lemma pressure_progress:
  assumes "c * 0.37 \<noteq> 0"
  shows "gelatinizationProgress (sample (pressureBranch grain c l t)) =
     Fin (60 + 40 * ((t - c * 0.48) / (c * 0.37)))"
  using assms
  by (simp only: pressureBranch_def Let_def outcome.select_convs sample.select_convs
      jsnum_Fin)

lemma transfer_progress:
  "gelatinizationProgress (sample (transferBranch grain c l t)) = Fin 60"
  by (simp only: transferBranch_def outcome.select_convs sample.select_convs)

lemma cooling_progress:
  "gelatinizationProgress (sample (coolingBranch grain c l t)) = Fin 100"
  by (simp only: coolingBranch_def Let_def outcome.select_convs sample.select_convs)

lemma progress_finite:
  assumes "0 \<le> t" and "gelatinization_temp grain \<noteq> 10"
    and "gelatinization_onset grain \<noteq> gelatinization_temp grain + 15"
  shows "gelatinizationProgress (sample (simulateCooking grain l t)) = Fin (progressOf grain t)"
proof -
  define c where "c = optimal_cook_time grain * 60"
  define l' where
    "l' = (if t = 0 \<and> \<not> nirScanLogged l then l\<lparr> nirScanLogged := True \<rparr> else l)"
  have e: "gelatinization_temp grain + 15 - 25 \<noteq> 0"
    using assms(2) by simp
  have o: "1 - (gelatinization_onset grain - 25) / (gelatinization_temp grain + 15 - 25) \<noteq> 0"
    using assms(2,3) by (simp add: field_simps)
  have s: "sample (simulateCooking grain l t) = sample (branchAt grain l' t)"
    unfolding l'_def by (rule simulateCooking_sample)
  consider (mw) "t < c * 0.45" | (tr) "\<not> t < c * 0.45" "t < c * 0.48"
    | (pr) "\<not> t < c * 0.45" "\<not> t < c * 0.48" "t < c * 0.85"
    | (co) "\<not> t < c * 0.45" "\<not> t < c * 0.48" "\<not> t < c * 0.85"
    by blast
  then show ?thesis
  proof cases
    case mw
    then have "c * 0.45 \<noteq> 0" using assms(1) by auto
    from microwave_progress [OF this e o, of l' t] mw show ?thesis
      unfolding s by (simp only: branchAt_def progressOf_def Let_def c_def [symmetric] if_True)
  next
    case tr
    then show ?thesis
      unfolding s
      by (simp only: branchAt_def progressOf_def Let_def c_def [symmetric] if_True if_False
          transfer_progress)
  next
    case pr
    then have "0 < c" using assms(1) by (simp add: c_def)
    then have "c * 0.37 \<noteq> 0" by simp
    from pressure_progress [OF this, of grain l' t] pr show ?thesis
      unfolding s
      by (simp only: branchAt_def progressOf_def Let_def c_def [symmetric] if_True if_False)
  next
    case co
    then show ?thesis
      unfolding s
      by (simp only: branchAt_def progressOf_def Let_def c_def [symmetric] if_True if_False
          cooling_progress)
  qed
qed

lemma progressOf_range:
  assumes "0 \<le> t"
  shows "0 \<le> progressOf grain t \<and> progressOf grain t \<le> 100"
proof -
  define c where "c = optimal_cook_time grain * 60"
  define p where "p = (t - c * 0.48) / (c * 0.37)"
  have pr: "0 \<le> p \<and> p \<le> 1" if "\<not> t < c * 0.48" "t < c * 0.85"
  proof -
    have c: "0 < c" using that assms by simp
    then have "0 < c * 0.37" by simp
    moreover have "0 \<le> t - c * 0.48" "t - c * 0.48 \<le> c * 0.37"
      using that by simp_all
    ultimately show ?thesis unfolding p_def by simp
  qed
  have mw: "0 \<le> ramp a b x \<and> ramp a b x \<le> 100" for a b x
    using ramp_range [of a b x] by simp
  have "progressOf grain t =
      (if t < c * 0.45
       then ramp (gelatinization_onset grain) (gelatinization_temp grain) (t / (c * 0.45))
       else if t < c * 0.48 then 60 else if t < c * 0.85 then 60 + 40 * p else 100)"
    by (simp only: progressOf_def Let_def c_def p_def)
  then show ?thesis
    using pr mw by simp
qed

lemma progressOf_mono:
  assumes "0 < gelatinization_onset grain"
    and "gelatinization_onset grain \<le> gelatinization_temp grain"
    and "gelatinization_temp grain \<noteq> 10"
    and "0 \<le> t" and "t \<le> t'"
  shows "progressOf grain t \<le> progressOf grain t'"
proof -
  define c where "c = optimal_cook_time grain * 60"
  define r where "r = ramp (gelatinization_onset grain) (gelatinization_temp grain)"
  define p where "p = (\<lambda>u. (u - c * 0.48) / (c * 0.37))"
  have v: "progressOf grain u =
      (if u < c * 0.45 then r (u / (c * 0.45)) else if u < c * 0.48 then 60
       else if u < c * 0.85 then 60 + 40 * p u else 100)" for u
    by (simp only: progressOf_def Let_def c_def r_def p_def)
  have t': "0 \<le> t'" using assms(4,5) by simp
  have r60: "r x \<le> 60" for x
    unfolding r_def using ramp_range by blast
  have low: "progressOf grain t \<le> 60" if "t < c * 0.48"
    unfolding v using that r60 by simp
  consider (mw) "t' < c * 0.45" | (tr) "\<not> t' < c * 0.45" "t' < c * 0.48"
    | (pr) "\<not> t' < c * 0.48" "t' < c * 0.85" | (co) "\<not> t' < c * 0.85"
    by blast
  then show ?thesis
  proof cases
    case mw
    then have d: "0 < c * 0.45" and t: "t < c * 0.45"
      using assms(4,5) by simp_all
    have "0 \<le> t / (c * 0.45)" "t / (c * 0.45) \<le> t' / (c * 0.45)" "t' / (c * 0.45) \<le> 1"
      using d mw assms(4,5) by (simp_all add: divide_right_mono del: times_divide_eq_right)
    then have "r (t / (c * 0.45)) \<le> r (t' / (c * 0.45))"
      unfolding r_def by (rule ramp_mono [OF assms(1,2,3)])
    then show ?thesis
      unfolding v using mw t by (simp only: if_True)
  next
    case tr
    then have "progressOf grain t' = 60"
      unfolding v by simp
    moreover have "t < c * 0.48" using tr assms(5) by simp
    ultimately show ?thesis
      using low by simp
  next
    case pr
    then have c: "0 < c" using t' by simp
    have n: "\<not> t' < c * 0.45" using pr(1) c by simp
    have v': "progressOf grain t' = 60 + 40 * p t'"
      unfolding v using pr n by (simp only: if_True if_False)
    show ?thesis
    proof (cases "t < c * 0.48")
      case True
      have "0 \<le> p t'"
        unfolding p_def using pr c by (intro divide_nonneg_pos) simp_all
      then have "60 \<le> progressOf grain t'"
        unfolding v' by simp
      with low [OF True] show ?thesis by simp
    next
      case False
      then have n2: "\<not> t < c * 0.45" using c by simp
      have "t < c * 0.85" using pr(2) assms(5) by simp
      then have vt: "progressOf grain t = 60 + 40 * p t"
        unfolding v using False n2 by (simp only: if_True if_False)
      have "p t \<le> p t'"
        unfolding p_def using assms(5) c by (intro divide_right_mono) simp_all
      then show ?thesis
        unfolding vt v' by simp
    qed
  next
    case co
    have "\<not> t' < c * 0.45 \<and> \<not> t' < c * 0.48"
    proof (cases "0 \<le> c")
      case True
      then have "c * 0.45 \<le> c * 0.85" "c * 0.48 \<le> c * 0.85" by simp_all
      with co show ?thesis by simp
    next
      case False
      then have "c * 0.45 \<le> 0" "c * 0.48 \<le> 0" by (simp_all add: mult_le_0_iff)
      with t' show ?thesis by simp
    qed
    then have "progressOf grain t' = 100"
      unfolding v using co by (simp only: if_False)
    then show ?thesis
      using progressOf_range [OF assms(4), of grain] by simp
  qed
qed

lemma progressOf_by_phase:
  "progressOf grain t =
     (case phase (sample (simulateCooking grain l t)) of
        MICROWAVE \<Rightarrow> ramp (gelatinization_onset grain) (gelatinization_temp grain)
                       (t / (optimal_cook_time grain * 60 * 0.45))
      | TRANSFER \<Rightarrow> 60
      | PRESSURE \<Rightarrow> 60 + 40 * ((t - optimal_cook_time grain * 60 * 0.48)
                                    / (optimal_cook_time grain * 60 * 0.37))
      | COOLING \<Rightarrow> 100
      | DONE \<Rightarrow> 100)"
  by (simp only: progressOf_def phase_simulateCooking Let_def phase.case if_distrib
      [of "case_phase a b c d e" for a b c d e] if_cancel)

text \<open>
  C2, as the specification states it, fails. With a gelatinization temperature of 10
  the onset fraction divides by \<open>10 + 15 - 25 = 0\<close>; the onset is below 25, so the
  fraction is minus infinity, the progress since the onset is infinity over infinity,
  and neither \<open>Math.min\<close> nor \<open>Math.max\<close> clamps a NaN. The profile below satisfies
  \<open>0 < gelatinization_onset \<le> gelatinization_temp\<close>, and its progress at \<open>t = 60\<close>,
  in the middle of MICROWAVE, is NaN, which lies in no interval.
\<close>

theorem progress_is_nan_at_temp_10:
  "0 < gelatinization_onset
         (basmati_rice\<lparr> gelatinization_onset := 5, gelatinization_temp := 10 \<rparr>)
   \<and> gelatinization_onset
         (basmati_rice\<lparr> gelatinization_onset := 5, gelatinization_temp := 10 \<rparr>)
       \<le> gelatinization_temp
         (basmati_rice\<lparr> gelatinization_onset := 5, gelatinization_temp := 10 \<rparr>)
   \<and> (0::rat) \<le> 60
   \<and> 60 \<le> optimal_cook_time
         (basmati_rice\<lparr> gelatinization_onset := 5, gelatinization_temp := 10 \<rparr>) * 60
   \<and> gelatinizationProgress (sample (simulateCooking
         (basmati_rice\<lparr> gelatinization_onset := 5, gelatinization_temp := 10 \<rparr>) noLatches 60))
       = NaN
   \<and> \<not> jle (Fin 0) (gelatinizationProgress (sample (simulateCooking
         (basmati_rice\<lparr> gelatinization_onset := 5, gelatinization_temp := 10 \<rparr>) noLatches 60)))
   \<and> \<not> jle (gelatinizationProgress (sample (simulateCooking
         (basmati_rice\<lparr> gelatinization_onset := 5, gelatinization_temp := 10 \<rparr>) noLatches 60)))
         (Fin 100)"
  by code_simp

text \<open>
  C2, amended. For a profile with \<open>0 < gelatinization_onset \<le> gelatinization_temp\<close>
  and a gelatinization temperature other than 10, the gelatinization progress of a
  sample at a time \<open>t \<ge> 0\<close> is the finite number that the formulas of the
  specification give; it lies in \<open>[0, 100]\<close> and does not decrease when the time
  increases, on \<open>[0, cookTime]\<close> and beyond. It is at most 60 in MICROWAVE, 60 in
  TRANSFER, \<open>60 + 40 p\<close> in PRESSURE and 100 in COOLING and DONE.
\<close>

theorem progress_nondecreasing_in_range:
  assumes "0 < gelatinization_onset grain"
    and "gelatinization_onset grain \<le> gelatinization_temp grain"
    and "gelatinization_temp grain \<noteq> 10"
    and "0 \<le> t" and "t \<le> t'"
  shows "gelatinizationProgress (sample (simulateCooking grain l t)) = Fin (progressOf grain t)
       \<and> gelatinizationProgress (sample (simulateCooking grain l' t')) = Fin (progressOf grain t')
       \<and> 0 \<le> progressOf grain t
       \<and> progressOf grain t \<le> progressOf grain t'
       \<and> progressOf grain t' \<le> 100
       \<and> jle (Fin 0) (gelatinizationProgress (sample (simulateCooking grain l t)))
       \<and> jle (gelatinizationProgress (sample (simulateCooking grain l t)))
           (gelatinizationProgress (sample (simulateCooking grain l' t')))
       \<and> jle (gelatinizationProgress (sample (simulateCooking grain l' t'))) (Fin 100)
       \<and> progressOf grain t =
           (case phase (sample (simulateCooking grain l t)) of
              MICROWAVE \<Rightarrow> ramp (gelatinization_onset grain) (gelatinization_temp grain)
                             (t / (optimal_cook_time grain * 60 * 0.45))
            | TRANSFER \<Rightarrow> 60
            | PRESSURE \<Rightarrow> 60 + 40 * ((t - optimal_cook_time grain * 60 * 0.48)
                                          / (optimal_cook_time grain * 60 * 0.37))
            | COOLING \<Rightarrow> 100
            | DONE \<Rightarrow> 100)
       \<and> ramp (gelatinization_onset grain) (gelatinization_temp grain)
             (t / (optimal_cook_time grain * 60 * 0.45)) \<le> 60"
proof -
  have o: "gelatinization_onset grain \<noteq> gelatinization_temp grain + 15"
    using assms(2) by simp
  have t': "0 \<le> t'" using assms(4,5) by simp
  have "gelatinizationProgress (sample (simulateCooking grain l t)) = Fin (progressOf grain t)
      \<and> gelatinizationProgress (sample (simulateCooking grain l' t')) = Fin (progressOf grain t')
      \<and> 0 \<le> progressOf grain t
      \<and> progressOf grain t \<le> progressOf grain t'
      \<and> progressOf grain t' \<le> 100"
    using progress_finite [OF assms(4) assms(3) o] progress_finite [OF t' assms(3) o]
      progressOf_range [OF assms(4)] progressOf_range [OF t'] progressOf_mono [OF assms]
    by simp
  then show ?thesis
    using progressOf_by_phase [of grain t l] ramp_range by simp
qed

theorem progress_nondecreasing_in_range_witness:
  "0 < gelatinization_onset basmati_rice
   \<and> gelatinization_onset basmati_rice \<le> gelatinization_temp basmati_rice
   \<and> gelatinization_temp basmati_rice \<noteq> 10
   \<and> (0::rat) \<le> 240 \<and> (240::rat) \<le> 400
   \<and> gelatinizationProgress (sample (simulateCooking basmati_rice noLatches 240))
       = Fin (progressOf basmati_rice 240)
   \<and> progressOf basmati_rice 240 = 19180 / 513
   \<and> progressOf basmati_rice 400 = 8900 / 111
   \<and> progressOf basmati_rice 240 \<le> progressOf basmati_rice 400
   \<and> progressOf basmati_rice 400 \<le> 100"
proof -
  have h: "0 < gelatinization_onset basmati_rice"
    "gelatinization_onset basmati_rice \<le> gelatinization_temp basmati_rice"
    "gelatinization_temp basmati_rice \<noteq> 10" "(0::rat) \<le> 240" "(240::rat) \<le> 400"
    by (simp_all add: basmati_rice_def)
  have v: "progressOf basmati_rice 240 = 19180 / 513"
    "progressOf basmati_rice 400 = 8900 / 111"
    by code_simp+
  show ?thesis
    using h v progress_nondecreasing_in_range [OF h, of noLatches noLatches] by simp
qed

subsection \<open>The scan at time zero\<close>


subsection \<open>Times and cook times outside the valid range\<close>

lemma simulateCookingAt_registered:
  "GRAIN_PROFILES (selectedGrain st) = Some grain \<Longrightarrow>
     simulateCookingAt st t =
       Inr (sample (simulateCooking grain (refs st) t),
            commit (simulateCooking grain (refs st) t) st)"
  by (simp add: simulateCookingAt_def invoke_def)

lemma phase_outside_valid_range:
  assumes "t < 0 \<or> optimal_cook_time grain \<le> 0"
  shows "phase (sample (simulateCooking grain l t)) =
           (if t < optimal_cook_time grain * 60 * 0.45 then MICROWAVE else DONE)"
proof (cases "optimal_cook_time grain \<le> 0")
  case True
  then have "optimal_cook_time grain * 60 * 0.48 \<le> optimal_cook_time grain * 60 * 0.45"
    "optimal_cook_time grain * 60 * 0.85 \<le> optimal_cook_time grain * 60 * 0.45"
    "optimal_cook_time grain * 60 * 0.95 \<le> optimal_cook_time grain * 60 * 0.45"
    by simp_all
  then show ?thesis
    unfolding phase_simulateCooking by (simp; linarith)
next
  case False
  with assms have "t < 0" "0 < optimal_cook_time grain * 60 * 0.45"
    by simp_all
  then show ?thesis
    unfolding phase_simulateCooking by (simp; linarith)
qed

text \<open>
  C4, as the specification states it, fails: the code has no check of the time or of
  the cook time and raises nothing of its own. At \<open>t = -60\<close> on basmati rice the engine
  returns a sample, the MICROWAVE formulas continued below zero.
\<close>

theorem negative_time_returns_sample:
  "map_sum id fst (simulateCookingAt initialState (- 60)) =
     Inr \<lparr> sample.time = - 1, moisture = Fin (14 / 3), temperature = Fin (59 / 9),
           pressure = Fin 1, ultrasonicVelocity = Fin (4420 / 3),
           microwavePower = Fin (280 / 9), gelatinizationProgress = Fin 0,
           phase = MICROWAVE \<rparr>"
  by code_simp

text \<open>
  C4, amended. For a registered grain the engine returns a sample at every elapsed
  time and in every state of the component; it does not fail. When the time is
  negative or the cook time of the profile is not positive, the sample is in phase
  MICROWAVE if \<open>t < 0.45 * cookTime\<close> and in phase DONE otherwise.
\<close>

theorem engine_returns_sample_at_any_time:
  "(GRAIN_PROFILES (selectedGrain st) = Some grain \<longrightarrow>
      simulateCookingAt st t =
        Inr (sample (simulateCooking grain (refs st) t),
             commit (simulateCooking grain (refs st) t) st))
   \<and> (t < 0 \<or> optimal_cook_time grain \<le> 0 \<longrightarrow>
        phase (sample (simulateCooking grain l t)) =
          (if t < optimal_cook_time grain * 60 * 0.45 then MICROWAVE else DONE))"
  using simulateCookingAt_registered phase_outside_valid_range by blast

theorem engine_returns_sample_at_any_time_witness:
  "GRAIN_PROFILES (selectedGrain initialState) = Some basmati_rice
   \<and> ((- 60 :: rat) < 0 \<or> optimal_cook_time basmati_rice \<le> 0)
   \<and> simulateCookingAt initialState (- 60) =
        Inr (sample (simulateCooking basmati_rice (refs initialState) (- 60)),
             commit (simulateCooking basmati_rice (refs initialState) (- 60)) initialState)
   \<and> phase (sample (simulateCooking basmati_rice noLatches (- 60))) = MICROWAVE"
proof -
  have g: "GRAIN_PROFILES (selectedGrain initialState) = Some basmati_rice"
    by (simp add: GRAIN_PROFILES_def initialState_def)
  have c: "(- 60 :: rat) < optimal_cook_time basmati_rice * 60 * 0.45"
    by (simp add: basmati_rice_def)
  show ?thesis
    using g c engine_returns_sample_at_any_time
      [of initialState basmati_rice "- 60" noLatches]
    by simp
qed

subsection \<open>Purity\<close>



subsection \<open>Moisture at the ends of the run\<close>

lemma moisture_at_zero:
  assumes "0 < optimal_cook_time grain"
  shows "moisture (sample (simulateCooking grain l 0)) = Fin (initial_moisture grain)"
  using assms by (simp add: simulateCooking_def branch_defs Let_def)

lemma cooling_progress_at_end:
  assumes "0 < (c::rat)"
  shows "(c * 60 - c * 60 * 0.85) / (c * 60 * 0.15) = 1"
  using assms by (simp add: field_simps)

lemma sample_at_end:
  assumes "0 < optimal_cook_time grain"
  shows "moisture (sample (simulateCooking grain l (optimal_cook_time grain * 60)))
           = Fin (target_moisture grain - 2)
       \<and> gelatinizationProgress (sample (simulateCooking grain l (optimal_cook_time grain * 60)))
           = Fin 100
       \<and> phase (sample (simulateCooking grain l (optimal_cook_time grain * 60))) = DONE"
proof -
  have "(optimal_cook_time grain * 60 - optimal_cook_time grain * 60 * 0.85)
          / (optimal_cook_time grain * 60 * 0.15) = 1"
    using assms by (rule cooling_progress_at_end)
  then have "jdiv (Fin (optimal_cook_time grain * 60 - optimal_cook_time grain * 60 * 0.85))
               (Fin (optimal_cook_time grain * 60 * 0.15)) = Fin 1"
    using assms by (simp del: times_divide_eq_right)
  then show ?thesis
    using assms
    by (simp add: simulateCooking_def branch_defs Let_def jsub_def del: jdiv.simps)
qed

text \<open>
  C6. For a profile with a positive cook time, the moisture of the sample at \<open>t = 0\<close> is
  the initial moisture of the profile, and at \<open>t = cookTime\<close> it is the target moisture
  minus 2, with gelatinization progress 100 and phase DONE. The numbers are exact
  rationals, so the equalities hold without a tolerance.
\<close>

theorem moisture_at_start_and_end:
  assumes "0 < optimal_cook_time grain"
  shows "moisture (sample (simulateCooking grain l 0)) = Fin (initial_moisture grain)
       \<and> moisture (sample (simulateCooking grain l (optimal_cook_time grain * 60)))
           = Fin (target_moisture grain - 2)
       \<and> gelatinizationProgress (sample (simulateCooking grain l (optimal_cook_time grain * 60)))
           = Fin 100
       \<and> phase (sample (simulateCooking grain l (optimal_cook_time grain * 60))) = DONE"
  using assms moisture_at_zero sample_at_end by blast

theorem moisture_at_start_and_end_witness:
  "0 < optimal_cook_time basmati_rice
   \<and> moisture (sample (simulateCooking basmati_rice noLatches 0)) = Fin 12
   \<and> moisture (sample (simulateCooking basmati_rice noLatches 600)) = Fin 63
   \<and> gelatinizationProgress (sample (simulateCooking basmati_rice noLatches 600)) = Fin 100
   \<and> phase (sample (simulateCooking basmati_rice noLatches 600)) = DONE"
proof -
  have h: "0 < optimal_cook_time basmati_rice"
    by (simp add: basmati_rice_def)
  have v: "optimal_cook_time basmati_rice * 60 = 600" "initial_moisture basmati_rice = 12"
    "target_moisture basmati_rice - 2 = 63"
    by (simp_all add: basmati_rice_def)
  show ?thesis
    using h moisture_at_start_and_end [OF h, of noLatches] unfolding v by simp
qed

subsection \<open>The decision log\<close>






subsection \<open>Water required\<close>






subsection \<open>One-shot events\<close>

lemma emitted_append: "emitted P (xs @ ys) = emitted P xs + emitted P ys"
  by (simp add: emitted_def)


lemma microwave_latched:
  "emitted isNirScan (calls (microwaveBranch grain c l t)) = 0
   \<and> emitted isComposition (calls (microwaveBranch grain c l t)) = 0
   \<and> nirScanLogged (flags (microwaveBranch grain c l t)) = nirScanLogged l
   \<and> emitted isOnset (calls (microwaveBranch grain c l t))
       + (if gelOnsetLogged (flags (microwaveBranch grain c l t)) then 0 else 1)
     \<le> (if gelOnsetLogged l then 0 else 1)
   \<and> emitted isTransfer (calls (microwaveBranch grain c l t))
       + (if transferLogged (flags (microwaveBranch grain c l t)) then 0 else 1)
     \<le> (if transferLogged l then 0 else 1)
   \<and> emitted isComplete (calls (microwaveBranch grain c l t))
       + (if gelCompleteLogged (flags (microwaveBranch grain c l t)) then 0 else 1)
     \<le> (if gelCompleteLogged l then 0 else 1)"
  by (simp add: microwaveBranch_def Let_def emitted_def
      del: jadd.simps jmul.simps jdiv.simps jlt.simps jle.simps)

lemma transfer_latched:
  "emitted isNirScan (calls (transferBranch grain c l t)) = 0
   \<and> emitted isComposition (calls (transferBranch grain c l t)) = 0
   \<and> nirScanLogged (flags (transferBranch grain c l t)) = nirScanLogged l
   \<and> emitted isOnset (calls (transferBranch grain c l t))
       + (if gelOnsetLogged (flags (transferBranch grain c l t)) then 0 else 1)
     \<le> (if gelOnsetLogged l then 0 else 1)
   \<and> emitted isTransfer (calls (transferBranch grain c l t))
       + (if transferLogged (flags (transferBranch grain c l t)) then 0 else 1)
     \<le> (if transferLogged l then 0 else 1)
   \<and> emitted isComplete (calls (transferBranch grain c l t))
       + (if gelCompleteLogged (flags (transferBranch grain c l t)) then 0 else 1)
     \<le> (if gelCompleteLogged l then 0 else 1)"
  by (simp add: transferBranch_def Let_def emitted_def
      del: jadd.simps jmul.simps jdiv.simps jlt.simps jle.simps)

lemma pressure_latched:
  "emitted isNirScan (calls (pressureBranch grain c l t)) = 0
   \<and> emitted isComposition (calls (pressureBranch grain c l t)) = 0
   \<and> nirScanLogged (flags (pressureBranch grain c l t)) = nirScanLogged l
   \<and> emitted isOnset (calls (pressureBranch grain c l t))
       + (if gelOnsetLogged (flags (pressureBranch grain c l t)) then 0 else 1)
     \<le> (if gelOnsetLogged l then 0 else 1)
   \<and> emitted isTransfer (calls (pressureBranch grain c l t))
       + (if transferLogged (flags (pressureBranch grain c l t)) then 0 else 1)
     \<le> (if transferLogged l then 0 else 1)
   \<and> emitted isComplete (calls (pressureBranch grain c l t))
       + (if gelCompleteLogged (flags (pressureBranch grain c l t)) then 0 else 1)
     \<le> (if gelCompleteLogged l then 0 else 1)"
  by (simp add: pressureBranch_def Let_def emitted_def
      del: jadd.simps jmul.simps jdiv.simps jlt.simps jle.simps)

lemma cooling_latched:
  "emitted isNirScan (calls (coolingBranch grain c l t)) = 0
   \<and> emitted isComposition (calls (coolingBranch grain c l t)) = 0
   \<and> nirScanLogged (flags (coolingBranch grain c l t)) = nirScanLogged l
   \<and> emitted isOnset (calls (coolingBranch grain c l t))
       + (if gelOnsetLogged (flags (coolingBranch grain c l t)) then 0 else 1)
     \<le> (if gelOnsetLogged l then 0 else 1)
   \<and> emitted isTransfer (calls (coolingBranch grain c l t))
       + (if transferLogged (flags (coolingBranch grain c l t)) then 0 else 1)
     \<le> (if transferLogged l then 0 else 1)
   \<and> emitted isComplete (calls (coolingBranch grain c l t))
       + (if gelCompleteLogged (flags (coolingBranch grain c l t)) then 0 else 1)
     \<le> (if gelCompleteLogged l then 0 else 1)"
  by (simp add: coolingBranch_def Let_def emitted_def
      del: jadd.simps jmul.simps jdiv.simps jlt.simps jle.simps)

lemma branchAt_latched:
  "emitted isNirScan (calls (branchAt grain l t)) = 0
   \<and> emitted isComposition (calls (branchAt grain l t)) = 0
   \<and> nirScanLogged (flags (branchAt grain l t)) = nirScanLogged l
   \<and> emitted isOnset (calls (branchAt grain l t))
       + (if gelOnsetLogged (flags (branchAt grain l t)) then 0 else 1)
     \<le> (if gelOnsetLogged l then 0 else 1)
   \<and> emitted isTransfer (calls (branchAt grain l t))
       + (if transferLogged (flags (branchAt grain l t)) then 0 else 1)
     \<le> (if transferLogged l then 0 else 1)
   \<and> emitted isComplete (calls (branchAt grain l t))
       + (if gelCompleteLogged (flags (branchAt grain l t)) then 0 else 1)
     \<le> (if gelCompleteLogged l then 0 else 1)"
  unfolding branchAt_def Let_def
  using microwave_latched transfer_latched pressure_latched cooling_latched
  by presburger

lemma simulateCooking_calls:
  "calls (simulateCooking grain l t) =
     (if t = 0 \<and> \<not> nirScanLogged l
      then [(0, NirScanComplete (nir_970 grain) (nir_1450 grain) (nir_1680 grain)
                  (nir_1200 grain) (nir_2100 grain)),
            (0, Composition (initial_moisture grain) (starch grain) (protein grain)
                  (amylose grain) (amylopectin grain))]
      else []) @
     calls (branchAt grain
       (if t = 0 \<and> \<not> nirScanLogged l then l\<lparr> nirScanLogged := True \<rparr> else l) t)"
  by (simp add: simulateCooking_def Let_def)

lemma simulateCooking_flags:
  "flags (simulateCooking grain l t) =
     flags (branchAt grain
       (if t = 0 \<and> \<not> nirScanLogged l then l\<lparr> nirScanLogged := True \<rparr> else l) t)"
  by (simp add: simulateCooking_def Let_def)

lemma step_scan:
  "emitted isNirScan (calls (simulateCooking grain l t))
     + (if nirScanLogged (flags (simulateCooking grain l t)) then 0 else 1)
   \<le> (if nirScanLogged l then 0 else 1)"
  unfolding simulateCooking_calls simulateCooking_flags emitted_append
  by (simp add: branchAt_latched) (simp add: emitted_def)

lemma step_composition:
  "emitted isComposition (calls (simulateCooking grain l t))
     + (if nirScanLogged (flags (simulateCooking grain l t)) then 0 else 1)
   \<le> (if nirScanLogged l then 0 else 1)"
  unfolding simulateCooking_calls simulateCooking_flags emitted_append
  by (simp add: branchAt_latched) (simp add: emitted_def)

lemma step_from_branch:
  assumes latch: "\<And>l. latch (l\<lparr> nirScanLogged := True \<rparr>) = latch l"
    and scan: "\<And>a b c d e. \<not> P (NirScanComplete a b c d e)"
    and comp: "\<And>a b c d e. \<not> P (Composition a b c d e)"
    and branch: "\<And>l. emitted P (calls (branchAt grain l t))
        + (if latch (flags (branchAt grain l t)) then 0 else 1)
      \<le> (if latch l then 0 else (1::nat))"
  shows "emitted P (calls (simulateCooking grain l t))
      + (if latch (flags (simulateCooking grain l t)) then 0 else 1)
    \<le> (if latch l then 0 else (1::nat))"
proof -
  define l' where "l' = (if t = 0 \<and> \<not> nirScanLogged l then l\<lparr> nirScanLogged := True \<rparr> else l)"
  define sc where "sc =
     (if t = 0 \<and> \<not> nirScanLogged l
      then [(0::rat, NirScanComplete (nir_970 grain) (nir_1450 grain) (nir_1680 grain)
                  (nir_1200 grain) (nir_2100 grain)),
            (0, Composition (initial_moisture grain) (starch grain) (protein grain)
                  (amylose grain) (amylopectin grain))]
      else [])"
  have l': "latch l' = latch l"
    by (simp add: l'_def latch)
  have sc: "emitted P sc = 0"
    by (simp add: sc_def emitted_def scan comp)
  have c: "calls (simulateCooking grain l t) = sc @ calls (branchAt grain l' t)"
    unfolding sc_def l'_def by (rule simulateCooking_calls)
  have f: "flags (simulateCooking grain l t) = flags (branchAt grain l' t)"
    unfolding l'_def by (rule simulateCooking_flags)
  show ?thesis
    unfolding c f emitted_append sc using branch [of l'] by (simp add: l')
qed

lemma step_onset:
  "emitted isOnset (calls (simulateCooking grain l t))
     + (if gelOnsetLogged (flags (simulateCooking grain l t)) then 0 else 1)
   \<le> (if gelOnsetLogged l then 0 else 1)"
  by (rule step_from_branch) (simp_all add: branchAt_latched)

lemma step_transfer:
  "emitted isTransfer (calls (simulateCooking grain l t))
     + (if transferLogged (flags (simulateCooking grain l t)) then 0 else 1)
   \<le> (if transferLogged l then 0 else 1)"
  by (rule step_from_branch) (simp_all add: branchAt_latched)

lemma step_complete:
  "emitted isComplete (calls (simulateCooking grain l t))
     + (if gelCompleteLogged (flags (simulateCooking grain l t)) then 0 else 1)
   \<le> (if gelCompleteLogged l then 0 else 1)"
  by (rule step_from_branch) (simp_all add: branchAt_latched)

lemma run_bound:
  assumes step: "\<And>l t. emitted P (calls (simulateCooking grain l t))
     + (if latch (flags (simulateCooking grain l t)) then 0 else 1)
   \<le> (if latch l then 0 else (1::nat))"
  shows "emitted P (invocations grain l ts) \<le> (if latch l then 0 else 1)"
proof (induction ts arbitrary: l)
  case Nil
  then show ?case by (simp add: emitted_def)
next
  case (Cons t ts)
  have "emitted P (invocations grain l (t # ts))
      = emitted P (calls (simulateCooking grain l t))
        + emitted P (invocations grain (flags (simulateCooking grain l t)) ts)"
    by (simp add: emitted_append)
  also have "\<dots> \<le> emitted P (calls (simulateCooking grain l t))
        + (if latch (flags (simulateCooking grain l t)) then 0 else 1)"
    using Cons.IH by (intro add_left_mono)
  also have "\<dots> \<le> (if latch l then 0 else 1)"
    by (rule step)
  finally show ?case .
qed

text \<open>
  C8. In a run that starts with no flag set, whatever the times at which the engine is
  invoked (in particular at times that do not decrease), the NIR scan, the
  composition, the gelatinization onset, the transfer and the gelatinization
  completion are each emitted at most once: an emission sets the flag of its event,
  no invocation clears a flag, and a set flag suppresses the event.
\<close>

theorem latched_events_emitted_at_most_once:
  "emitted isNirScan (invocations grain noLatches ts) \<le> 1
   \<and> emitted isComposition (invocations grain noLatches ts) \<le> 1
   \<and> emitted isOnset (invocations grain noLatches ts) \<le> 1
   \<and> emitted isTransfer (invocations grain noLatches ts) \<le> 1
   \<and> emitted isComplete (invocations grain noLatches ts) \<le> 1"
  using run_bound [of isNirScan grain nirScanLogged noLatches ts, OF step_scan]
    run_bound [of isComposition grain nirScanLogged noLatches ts, OF step_composition]
    run_bound [of isOnset grain gelOnsetLogged noLatches ts, OF step_onset]
    run_bound [of isTransfer grain transferLogged noLatches ts, OF step_transfer]
    run_bound [of isComplete grain gelCompleteLogged noLatches ts, OF step_complete]
  by (simp add: noLatches_def)

subsection \<open>The driver\<close>

lemma sample_branchAt: "sample (branchAt grain l t) = sample (branchAt grain l' t)"
proof -
  have mw: "sample (microwaveBranch grain c l t) = sample (microwaveBranch grain c l' t)" for c
    by (simp only: microwaveBranch_def Let_def outcome.select_convs)
  have tr: "sample (transferBranch grain c l t) = sample (transferBranch grain c l' t)" for c
    by (simp only: transferBranch_def Let_def outcome.select_convs)
  have pr: "sample (pressureBranch grain c l t) = sample (pressureBranch grain c l' t)" for c
    by (simp only: pressureBranch_def Let_def outcome.select_convs)
  have co: "sample (coolingBranch grain c l t) = sample (coolingBranch grain c l' t)" for c
    by (simp only: coolingBranch_def Let_def outcome.select_convs)
  show ?thesis
    by (simp only: branchAt_def Let_def if_distrib [of sample] mw tr pr co)
qed

lemma sample_simulateCooking: "sample (simulateCooking grain l t) = sampleAt grain t"
  unfolding sampleAt_def simulateCooking_sample by (rule sample_branchAt)

lemma tick_stop:
  assumes "GRAIN_PROFILES (selectedGrain st) = Some grain"
    and "optimal_cook_time grain * 60 \<le> simTime st + (100 / 1000) * of_int (speedMultiplier st)"
  shows "tick st = Inr (st\<lparr> isRunning := False, simTime := optimal_cook_time grain * 60 \<rparr>)"
  using assms by (simp add: tick_def Let_def)

lemma tick_sample:
  assumes "GRAIN_PROFILES (selectedGrain st) = Some grain"
    and "simTime st + (100 / 1000) * of_int (speedMultiplier st) < optimal_cook_time grain * 60"
  shows "tick st = Inr ((commit (simulateCooking grain (refs st)
                            (simTime st + (100 / 1000) * of_int (speedMultiplier st))) st)
           \<lparr> data := data st @ [sampleAt grain (simTime st + (100 / 1000) * of_int (speedMultiplier st))],
             simTime := simTime st + (100 / 1000) * of_int (speedMultiplier st) \<rparr>)"
  using assms
  by (simp add: tick_def Let_def simulateCookingAt_def invoke_def commit_def
      sample_simulateCooking)

lemma tick_series:
  assumes reg: "GRAIN_PROFILES (selectedGrain st) = Some grain"
    and inv: "data st = map (sampleAt grain) ts" "\<forall>t\<in>set ts. t < optimal_cook_time grain * 60"
  shows "\<exists>st' ts'. tick st = Inr st' \<and> selectedGrain st' = selectedGrain st
     \<and> data st' = map (sampleAt grain) ts'
     \<and> (\<forall>t\<in>set ts'. t < optimal_cook_time grain * 60)"
proof (cases "simTime st + (100 / 1000) * of_int (speedMultiplier st) < optimal_cook_time grain * 60")
  case True
  define t where "t = simTime st + (100 / 1000) * of_int (speedMultiplier st)"
  define st' where "st' = (commit (simulateCooking grain (refs st) t) st)
           \<lparr> data := data st @ [sampleAt grain t], simTime := t \<rparr>"
  have "tick st = Inr st'"
    unfolding st'_def t_def by (rule tick_sample [OF reg True])
  moreover have "selectedGrain st' = selectedGrain st"
    by (simp add: st'_def commit_def)
  moreover have "data st' = map (sampleAt grain) (ts @ [t])"
    by (simp add: st'_def inv)
  moreover have "\<forall>u\<in>set (ts @ [t]). u < optimal_cook_time grain * 60"
    using inv(2) True by (simp add: t_def)
  ultimately show ?thesis by blast
next
  case False
  then have "optimal_cook_time grain * 60 \<le> simTime st + (100 / 1000) * of_int (speedMultiplier st)"
    by simp
  from tick_stop [OF reg this] have "tick st = Inr (st\<lparr> isRunning := False, simTime := optimal_cook_time grain * 60 \<rparr>)" .
  moreover have "selectedGrain (st\<lparr> isRunning := False, simTime := optimal_cook_time grain * 60 \<rparr>) = selectedGrain st"
    "data (st\<lparr> isRunning := False, simTime := optimal_cook_time grain * 60 \<rparr>) = map (sampleAt grain) ts"
    by (simp_all add: inv)
  ultimately show ?thesis using inv(2) by blast
qed

lemma run_series:
  assumes "GRAIN_PROFILES (selectedGrain st) = Some grain"
    and "data st = map (sampleAt grain) ts" "\<forall>t\<in>set ts. t < optimal_cook_time grain * 60"
  shows "\<exists>st' ts'. run n st = Inr st' \<and> data st' = map (sampleAt grain) ts'
     \<and> (\<forall>t\<in>set ts'. t < optimal_cook_time grain * 60)"
  using assms
proof (induction n arbitrary: st ts)
  case 0
  then show ?case by auto
next
  case (Suc n)
  show ?case
  proof (cases "isRunning st")
    case True
    obtain st' ts' where t: "tick st = Inr st'" "selectedGrain st' = selectedGrain st"
      "data st' = map (sampleAt grain) ts'" "\<forall>t\<in>set ts'. t < optimal_cook_time grain * 60"
      using tick_series [OF Suc.prems] by blast
    have "GRAIN_PROFILES (selectedGrain st') = Some grain"
      using t(2) Suc.prems(1) by simp
    from Suc.IH [OF this t(3) t(4)] show ?thesis
      using True t(1) by simp
  next
    case False
    then show ?thesis
      using Suc.prems by auto
  qed
qed

text \<open>
  C10. For a registered grain, a tick whose new time reaches or exceeds the cook time
  only stops the run and sets the clock to the cook time: the series, the log and the
  flags stay as they are. Every other tick appends the sample of its new time, which
  is below the cook time. So after any number of ticks every sample of a series that
  started empty, or held only samples of times below the cook time, is the sample of a
  time strictly below the cook time; none is the sample of the cook time itself.
  (The time stored in a sample is in minutes and rounded to two decimals.)
\<close>

theorem series_stays_below_cook_time:
  assumes "GRAIN_PROFILES (selectedGrain st) = Some grain"
  shows "(optimal_cook_time grain * 60 \<le> simTime st + (100 / 1000) * of_int (speedMultiplier st)
            \<longrightarrow> tick st = Inr (st\<lparr> isRunning := False, simTime := optimal_cook_time grain * 60 \<rparr>))
       \<and> (simTime st + (100 / 1000) * of_int (speedMultiplier st) < optimal_cook_time grain * 60
            \<longrightarrow> map_sum id data (tick st) =
                  Inr (data st @
                    [sampleAt grain (simTime st + (100 / 1000) * of_int (speedMultiplier st))])
              \<and> map_sum id simTime (tick st) =
                  Inr (simTime st + (100 / 1000) * of_int (speedMultiplier st)))
       \<and> (data st = map (sampleAt grain) ts0
            \<and> (\<forall>t\<in>set ts0. t < optimal_cook_time grain * 60) \<longrightarrow>
            (\<exists>st' ts. run n st = Inr st' \<and> data st' = map (sampleAt grain) ts
               \<and> (\<forall>t\<in>set ts. t < optimal_cook_time grain * 60)))"
proof (intro conjI impI)
  assume "optimal_cook_time grain * 60 \<le> simTime st + (100 / 1000) * of_int (speedMultiplier st)"
  then show "tick st = Inr (st\<lparr> isRunning := False, simTime := optimal_cook_time grain * 60 \<rparr>)"
    using assms by (rule tick_stop [rotated])
next
  assume b: "simTime st + (100 / 1000) * of_int (speedMultiplier st) < optimal_cook_time grain * 60"
  show "map_sum id data (tick st) =
      Inr (data st @ [sampleAt grain (simTime st + (100 / 1000) * of_int (speedMultiplier st))])"
    unfolding tick_sample [OF assms b] by (simp add: commit_def)
  show "map_sum id simTime (tick st) =
      Inr (simTime st + (100 / 1000) * of_int (speedMultiplier st))"
    unfolding tick_sample [OF assms b] by (simp add: commit_def)
next
  assume "data st = map (sampleAt grain) ts0
      \<and> (\<forall>t\<in>set ts0. t < optimal_cook_time grain * 60)"
  then have "data st = map (sampleAt grain) ts0"
    "\<forall>t\<in>set ts0. t < optimal_cook_time grain * 60"
    by simp_all
  then show "\<exists>st' ts. run n st = Inr st' \<and> data st' = map (sampleAt grain) ts
               \<and> (\<forall>t\<in>set ts. t < optimal_cook_time grain * 60)"
    by (rule run_series [OF assms])
qed

theorem series_stays_below_cook_time_witness:
  "GRAIN_PROFILES (selectedGrain (initialState\<lparr> isRunning := True, simTime := 598 \<rparr>))
     = Some basmati_rice
   \<and> GRAIN_PROFILES (selectedGrain (initialState\<lparr> isRunning := True, simTime := 599 \<rparr>))
     = Some basmati_rice
   \<and> data (initialState\<lparr> isRunning := True, simTime := 598 \<rparr>) = []
   \<and> map_sum id data (tick (initialState\<lparr> isRunning := True, simTime := 598 \<rparr>))
     = Inr [sampleAt basmati_rice 599]
   \<and> tick (initialState\<lparr> isRunning := True, simTime := 599 \<rparr>)
     = Inr (initialState\<lparr> isRunning := False, simTime := 600 \<rparr>)"
proof -
  have g: "GRAIN_PROFILES (selectedGrain (initialState\<lparr> isRunning := True, simTime := 598 \<rparr>))
      = Some basmati_rice"
    "GRAIN_PROFILES (selectedGrain (initialState\<lparr> isRunning := True, simTime := 599 \<rparr>))
      = Some basmati_rice"
    by (simp_all add: GRAIN_PROFILES_def initialState_def)
  have v: "optimal_cook_time basmati_rice * 60 = 600"
    "simTime (initialState\<lparr> isRunning := True, simTime := 598 \<rparr>)
       + (100 / 1000) * of_int (speedMultiplier (initialState\<lparr> isRunning := True, simTime := 598 \<rparr>))
     = 599"
    "simTime (initialState\<lparr> isRunning := True, simTime := 599 \<rparr>)
       + (100 / 1000) * of_int (speedMultiplier (initialState\<lparr> isRunning := True, simTime := 599 \<rparr>))
     = 600"
    "data (initialState\<lparr> isRunning := True, simTime := 598 \<rparr>) = []"
    by (simp_all add: basmati_rice_def initialState_def)
  show ?thesis
    using g series_stays_below_cook_time [OF g(1), of "[]" 5]
      series_stays_below_cook_time [OF g(2), of "[]" 5]
    unfolding v by simp
qed

end
